theory Spec2Isabelle
  imports Complex_Main
begin

section \<open>Python values, errors and messages\<close>

text \<open>
  The values a script can put into the list \<open>f_lst\<close> of \<open>force.active\<close>. The input
  check of the constructor looks at the exact type of each element and, for a tuple,
  at its length. \<open>PyTuple\<close> is a value whose type is exactly \<open>tuple\<close>; an instance of
  a class derived from \<open>tuple\<close> (a named tuple, say) is a \<open>PyTupleSubclass\<close> with the
  name of its class and its items, and \<open>type(element) != tuple\<close> holds of it.
\<close>

datatype pyval =
    PyNone
  | PyBool bool
  | PyInt int
  | PyFloat real
  | PyStr string
  | PyTuple "pyval list"
  | PyList "pyval list"
  | PyTupleSubclass string "pyval list"

text \<open>Every \<open>raise\<close> of \<open>force.py\<close> raises \<open>RuntimeError\<close>, with or without a text.\<close>

datatype error = RuntimeError string

text \<open>
  What reaches the messenger \<open>hoomd.context.msg\<close>, and the status line that
  \<open>hoomd.util.print_status_line\<close> prints.
\<close>

datatype msg = StatusLine | Warning string | Error string

section \<open>Native objects\<close>

datatype scalar3 = make_scalar3 real real real

record group =
  cpp_group :: nat

text \<open>
  A constraint object as \<open>active.__init__\<close> reads it: the name of its class and the
  attributes \<open>P\<close>, \<open>rx\<close>, \<open>ry\<close>, \<open>rz\<close>. The constructor compares the name with
  \<open>is\<close>, which tests whether two strings are the same object and not whether they have
  the same text: \<open>name_is_literal\<close> says whether \<open>constraint.__class__.__name__\<close> is the
  very string object of the literal \<open>"constraint_ellipsoid"\<close> of \<open>force.py\<close>. It is for
  the class \<open>update.constraint_ellipsoid\<close>, whose name is an interned identifier; it need
  not be for a class whose name was built at run time.
\<close>

record constraint =
  class_name :: string
  name_is_literal :: bool
  con_P :: scalar3
  con_rx :: real
  con_ry :: real
  con_rz :: real

text \<open>
  The native compute classes are opaque to the Python layer. A native object is
  represented by the constructor call that made it (without the system definition,
  which is the same in every call) and by the mutator calls it has received since.
\<close>

datatype native_ctor =
    ConstForceCompute nat real real real
  | ActiveForceCompute nat int "pyval list option" bool real scalar3 real real real
  | ActiveForceComputeGPU nat int "pyval list option" bool real scalar3 real real real

datatype native_call =
    setForce real real real
  | setGroupForce nat real real real

record cpp_obj =
  ctor :: native_ctor
  calls :: "native_call list"

section \<open>The simulation context\<close>

text \<open>
  The ambient state the module reads and writes: \<open>hoomd.init.is_initialized()\<close>,
  \<open>hoomd.context.exec_conf.isCUDAEnabled()\<close>, \<open>hoomd.context.current.group_all\<close>, the
  class attribute \<open>_force.cur_id\<close>, the list \<open>hoomd.context.current.forces\<close> (each force
  by its \<open>force_name\<close>), the computes registered with
  \<open>hoomd.context.current.system\<close>, the store of native objects, and the messages printed
  so far. A native object is shared between the force that owns it and the system that
  has it registered, so both hold its address in \<open>heap\<close>.
\<close>

record "context" =
  initialized :: bool
  isCUDAEnabled :: bool
  group_all :: group
  cur_id :: nat
  forces :: "string list"
  computes :: "string \<rightharpoonup> nat"
  heap :: "nat \<Rightarrow> cpp_obj"
  next_ref :: nat
  msgs :: "msg list"

definition print_status_line :: "context \<Rightarrow> context" where
  "print_status_line ctx = ctx\<lparr>msgs := msgs ctx @ [StatusLine]\<rparr>"

definition msg_error :: "string \<Rightarrow> context \<Rightarrow> context" where
  "msg_error s ctx = ctx\<lparr>msgs := msgs ctx @ [Error s]\<rparr>"

definition msg_warning :: "string \<Rightarrow> context \<Rightarrow> context" where
  "msg_warning s ctx = ctx\<lparr>msgs := msgs ctx @ [Warning s]\<rparr>"

text \<open>
  Modelled from the spec: the native \<open>System\<close> is not part of the Python source. Its
  compute registry is a dictionary from names to compute objects: \<open>addCompute\<close> registers
  the object under the name and \<open>removeCompute\<close> drops the name, so that the compute no
  longer takes part in the simulation.
\<close>

definition addCompute :: "nat \<Rightarrow> string \<Rightarrow> context \<Rightarrow> context" where
  "addCompute c nm ctx = ctx\<lparr>computes := (computes ctx)(nm \<mapsto> c)\<rparr>"

definition removeCompute :: "string \<Rightarrow> context \<Rightarrow> context" where
  "removeCompute nm ctx = ctx\<lparr>computes := (computes ctx)(nm := None)\<rparr>"

text \<open>Constructing a native object: a fresh address holding the constructor call.\<close>

definition new_native :: "native_ctor \<Rightarrow> context \<Rightarrow> nat \<times> context" where
  "new_native c ctx =
     (next_ref ctx,
      ctx\<lparr>heap := (heap ctx)(next_ref ctx := \<lparr>ctor = c, calls = []\<rparr>),
          next_ref := next_ref ctx + 1\<rparr>)"

definition native_call :: "nat \<Rightarrow> native_call \<Rightarrow> context \<Rightarrow> context" where
  "native_call r c ctx =
     ctx\<lparr>heap := (heap ctx)(r := (heap ctx r)\<lparr>calls := calls (heap ctx r) @ [c]\<rparr>)\<rparr>"

section \<open>The base class \<open>_force\<close>\<close>

text \<open>The decimal digits of \<open>"force%d" % id\<close>.\<close>

fun show_nat :: "nat \<Rightarrow> string" where
  "show_nat n =
     (if n < 10 then [''0123456789'' ! n]
      else show_nat (n div 10) @ [''0123456789'' ! (n mod 10)])"

declare show_nat.simps [simp del]

text \<open>
  The attributes of a \<open>_force\<close> object. The constructor of the base class
  \<open>hoomd.meta._metadata\<close>, which only prepares the metadata of the object and is not
  part of the source, is left out of \<open>force_init\<close>.
\<close>

record force =
  name :: string
  cpp_force :: "nat option"
  force_name :: string
  enabled :: bool
  log :: bool

definition force_init :: "string option \<Rightarrow> context \<Rightarrow> (error + force) \<times> context" where
  "force_init nm ctx =
     (if \<not> initialized ctx then
        (Inl (RuntimeError ''Error creating force''),
         msg_error (''Cannot create force before initialization'' @ [CHR 0x0A]) ctx)
      else
        let self = \<lparr>name = (case nm of None \<Rightarrow> '''' | Some n \<Rightarrow> ''_'' @ n),
                    cpp_force = None,
                    force_name = ''force'' @ show_nat (cur_id ctx),
                    enabled = True,
                    log = True\<rparr>
        in (Inr self,
            ctx\<lparr>cur_id := cur_id ctx + 1,
                forces := forces ctx @ [force_name self]\<rparr>))"

definition check_initialization ::
  "'a force_scheme \<Rightarrow> context \<Rightarrow> (error + unit) \<times> context" where
  "check_initialization self ctx =
     (if cpp_force self = None then
        (Inl (RuntimeError ''''),
         msg_error (''Bug in hoomd_script: cpp_force not set, please report'' @ [CHR 0x0A]) ctx)
      else (Inr (), ctx))"

definition disable ::
  "bool \<Rightarrow> 'a force_scheme \<Rightarrow> context \<Rightarrow> (error + unit) \<times> 'a force_scheme \<times> context" where
  "disable lg self ctx =
     (case check_initialization self (print_status_line ctx) of
        (Inl e, ctx1) \<Rightarrow> (Inl e, self, ctx1)
      | (Inr u, ctx1) \<Rightarrow>
          if \<not> enabled self then
            (Inr (), self,
             msg_warning ''Ignoring command to disable a force that is already disabled'' ctx1)
          else
            let self1 = self\<lparr>enabled := False, log := lg\<rparr>
            in if \<not> lg then (Inr (), self1, removeCompute (force_name self1) ctx1)
               else (Inr (), self1, ctx1))"

definition enable ::
  "'a force_scheme \<Rightarrow> context \<Rightarrow> (error + unit) \<times> 'a force_scheme \<times> context" where
  "enable self ctx =
     (case check_initialization self (print_status_line ctx) of
        (Inl e, ctx1) \<Rightarrow> (Inl e, self, ctx1)
      | (Inr u, ctx1) \<Rightarrow>
          if enabled self then
            (Inr (), self,
             msg_warning ''Ignoring command to enable a force that is already enabled'' ctx1)
          else
            let ctx2 = (if \<not> log self
                        then addCompute (the (cpp_force self)) (force_name self) ctx1
                        else ctx1)
            in (Inr (), self\<lparr>enabled := True, log := True\<rparr>, ctx2))"

text \<open>
  \<open>benchmark\<close> returns what the native object's \<open>benchmark\<close> returns; that timing is
  the parameter \<open>timing\<close>.
\<close>

definition benchmark ::
  "(cpp_obj \<Rightarrow> int \<Rightarrow> real) \<Rightarrow> int \<Rightarrow> 'a force_scheme \<Rightarrow> context
     \<Rightarrow> (error + real) \<times> context" where
  "benchmark timing n self ctx =
     (case check_initialization self ctx of
        (Inl e, ctx1) \<Rightarrow> (Inl e, ctx1)
      | (Inr u, ctx1) \<Rightarrow> (Inr (timing (heap ctx1 (the (cpp_force self))) n), ctx1))"

section \<open>The class \<open>constant\<close>\<close>

record "constant" = force +
  metadata_fields :: "string list"
  fx :: real
  fy :: real
  fz :: real
  group :: "group option"

definition constant_init ::
  "real \<Rightarrow> real \<Rightarrow> real \<Rightarrow> group option \<Rightarrow> context \<Rightarrow> (error + constant) \<times> context" where
  "constant_init x y z grp ctx =
     (case force_init None (print_status_line ctx) of
        (Inl e, ctx1) \<Rightarrow> (Inl e, ctx1)
      | (Inr base, ctx1) \<Rightarrow>
          let (r, ctx2) =
                (case grp of
                   Some g \<Rightarrow> new_native (ConstForceCompute (cpp_group g) x y z) ctx1
                 | None \<Rightarrow>
                     new_native (ConstForceCompute (cpp_group (group_all ctx1)) x y z) ctx1);
              self = force.extend (base\<lparr>cpp_force := Some r\<rparr>)
                       (constant.fields
                          (if grp \<noteq> None then [''fx'', ''fy'', ''fz'', ''group'']
                           else [''fx'', ''fy'', ''fz''])
                          x y z grp)
          in (Inr self, addCompute r (force_name self) ctx2))"

definition set_force ::
  "real \<Rightarrow> real \<Rightarrow> real \<Rightarrow> group option \<Rightarrow> constant \<Rightarrow> context
     \<Rightarrow> (error + unit) \<times> constant \<times> context" where
  "set_force x y z grp self ctx =
     (case check_initialization self ctx of
        (Inl e, ctx1) \<Rightarrow> (Inl e, self, ctx1)
      | (Inr u, ctx1) \<Rightarrow>
          let ctx2 =
                (case grp of
                   Some g \<Rightarrow>
                     native_call (the (cpp_force self)) (setGroupForce (cpp_group g) x y z) ctx1
                 | None \<Rightarrow> native_call (the (cpp_force self)) (setForce x y z) ctx1)
          in (Inr (), self\<lparr>fx := x, fy := y, fz := z\<rparr>, ctx2))"

section \<open>The class \<open>active\<close>\<close>

record active = force +
  metdata_fields :: "string list"
  group :: group
  seed :: int
  orientation_link :: bool
  rotation_diff :: real
  "constraint" :: "constraint option"

text \<open>The input check: every element of \<open>f_lst\<close> has to be a tuple of length 3.\<close>

fun bad_element :: "pyval \<Rightarrow> bool" where
  "bad_element (PyTuple vs) = (length vs \<noteq> 3)"
| "bad_element v = True"

fun check_elements :: "pyval list \<Rightarrow> error + unit" where
  "check_elements [] = Inr ()"
| "check_elements (element # rest) =
     (if bad_element element then
        Inl (RuntimeError ''Active force passed in should be a list of 3-tuples (fx, fy, fz)'')
      else check_elements rest)"

definition input_check :: "pyval list option \<Rightarrow> error + unit" where
  "input_check f_lst = (case f_lst of None \<Rightarrow> Inr () | Some xs \<Rightarrow> check_elements xs)"

text \<open>
  The constraint branch: the centre and the three semi-axes given to the engine. The
  test \<open>constraint.__class__.__name__ is "constraint_ellipsoid"\<close> holds when the name is
  the object of that literal, which then has its text.
\<close>

definition assign_constraints ::
  "constraint option \<Rightarrow> error + scalar3 \<times> real \<times> real \<times> real" where
  "assign_constraints c =
     (case c of
        Some con \<Rightarrow>
          if name_is_literal con \<and> class_name con = ''constraint_ellipsoid'' then
            Inr (con_P con, con_rx con, con_ry con, con_rz con)
          else
            Inl (RuntimeError
              ''Active force constraint is not accepted (currently only accepts ellipsoids)'')
      | None \<Rightarrow> Inr (make_scalar3 0 0 0, 0, 0, 0))"

text \<open>
  The constructor of the native engine is not part of the Python source and may raise
  on the arguments it is given: \<open>native c = Some e\<close> says that it raises \<open>e\<close> on the call
  \<open>c\<close>, \<open>native c = None\<close> that it returns the object.
\<close>

definition active_init ::
  "(native_ctor \<Rightarrow> error option) \<Rightarrow> int \<Rightarrow> pyval list option \<Rightarrow> group \<Rightarrow> bool \<Rightarrow> real
     \<Rightarrow> constraint option \<Rightarrow> context \<Rightarrow> (error + active) \<times> context" where
  "active_init native sd f_lst grp olink rdiff con ctx =
     (case force_init None (print_status_line ctx) of
        (Inl e, ctx1) \<Rightarrow> (Inl e, ctx1)
      | (Inr base, ctx1) \<Rightarrow>
          (case input_check f_lst of
             Inl e \<Rightarrow> (Inl e, ctx1)
           | Inr u \<Rightarrow>
               (case assign_constraints con of
                  Inl e \<Rightarrow> (Inl e, ctx1)
                | Inr (P, rx, ry, rz) \<Rightarrow>
                    let c = (if \<not> isCUDAEnabled ctx1
                             then ActiveForceCompute (cpp_group grp) sd f_lst olink rdiff
                                    P rx ry rz
                             else ActiveForceComputeGPU (cpp_group grp) sd f_lst olink rdiff
                                    P rx ry rz)
                    in (case native c of
                          Some e \<Rightarrow> (Inl e, ctx1)
                        | None \<Rightarrow>
                            let (r, ctx2) = new_native c ctx1;
                                self = force.extend (base\<lparr>cpp_force := Some r\<rparr>)
                                         (active.fields
                                            [''group'', ''seed'', ''orientation_link'',
                                             ''rotation_diff'', ''constraint'']
                                            grp sd olink rdiff con)
                            in (Inr self, addCompute r (force_name self) ctx2)))))"

section \<open>The native engine constructor\<close>

text \<open>
  Modelled from the spec: the constructors \<open>_md.ActiveForceCompute\<close> and
  \<open>_md.ActiveForceComputeGPU\<close> of the native engine are not part of the Python source.
  The spec says of the engine that it fails with InvalidConfiguration if \<open>D_r\<close> is
  negative, if a non-ellipsoid constraint type is supplied, or if the group is empty.
  The constructor is given the centre and the semi-axes and never the constraint object,
  whose type the Python constructor has checked before the call; so the native
  constructor raises the configuration error when the rotational diffusion constant is
  negative or the group has no particle, and returns the engine otherwise. \<open>members\<close>
  gives the number of particles of a native group. The error reaches Python as a
  \<open>RuntimeError\<close>.
\<close>

definition InvalidConfiguration :: "error" where
  "InvalidConfiguration = RuntimeError ''InvalidConfiguration''"

fun native_engine :: "(nat \<Rightarrow> nat) \<Rightarrow> native_ctor \<Rightarrow> error option" where
  "native_engine members (ActiveForceCompute grp sd f_lst olink rdiff P rx ry rz) =
     (if rdiff < 0 \<or> members grp = 0 then Some InvalidConfiguration else None)"
| "native_engine members (ActiveForceComputeGPU grp sd f_lst olink rdiff P rx ry rz) =
     (if rdiff < 0 \<or> members grp = 0 then Some InvalidConfiguration else None)"
| "native_engine members (ConstForceCompute grp x y z) = None"

section \<open>Sequences of control calls\<close>

datatype control = Enable | Disable bool

fun control_call :: "control \<Rightarrow> 'a force_scheme \<times> context \<Rightarrow> 'a force_scheme \<times> context" where
  "control_call Enable (self, ctx) = snd (enable self ctx)"
| "control_call (Disable lg) (self, ctx) = snd (disable lg self ctx)"

text \<open>
  A script that goes on after a call that raised (having caught the error) sees the
  force and the context as the raise left them.
\<close>

fun control_calls ::
  "control list \<Rightarrow> 'a force_scheme \<times> context \<Rightarrow> 'a force_scheme \<times> context" where
  "control_calls [] s = s"
| "control_calls (c # cs) s = control_calls cs (control_call c s)"

section \<open>Example sessions\<close>

text \<open>A native constructor that accepts every call.\<close>

definition accept_all :: "native_ctor \<Rightarrow> error option" where
  "accept_all c = None"

text \<open>
  An initialized session on the CPU in which no force has been created, and the base-class
  force, the constant force and the session that \<open>_force()\<close> and
  \<open>force.constant(fx=1, fy=2, fz=3)\<close> give there.
\<close>

definition session0 :: "context" where
  "session0 = \<lparr>initialized = True, isCUDAEnabled = False, group_all = \<lparr>cpp_group = 0\<rparr>,
           cur_id = 0, forces = [], computes = Map.empty,
           heap = (\<lambda>r. \<lparr>ctor = ConstForceCompute 0 0 0 0, calls = []\<rparr>),
           next_ref = 0, msgs = []\<rparr>"

definition base0 :: "force" where
  "base0 = projr (fst (force_init None session0))"

definition const1 :: "constant" where
  "const1 = projr (fst (constant_init 1 2 3 None session0))"

definition session1 :: "context" where
  "session1 = snd (constant_init 1 2 3 None session0)"

text \<open>Native groups of one particle each.\<close>

definition one_particle :: "nat \<Rightarrow> nat" where
  "one_particle grp = 1"

text \<open>A native benchmark that reports no time at all.\<close>

definition timing0 :: "cpp_obj \<Rightarrow> int \<Rightarrow> real" where
  "timing0 obj n = 0"

text \<open>Two constraint objects: one of another class, and an ellipsoid.\<close>

definition sphere0 :: "constraint" where
  "sphere0 = \<lparr>class_name = ''constraint_sphere'', name_is_literal = False,
              con_P = make_scalar3 0 0 0,
              con_rx = 3, con_ry = 3, con_rz = 3\<rparr>"

definition ellipsoid0 :: "constraint" where
  "ellipsoid0 = \<lparr>class_name = ''constraint_ellipsoid'', name_is_literal = True,
                 con_P = make_scalar3 0 0 0,
                 con_rx = 3, con_ry = 4, con_rz = 5\<rparr>"

section \<open>Evaluating the example sessions\<close>

lemma base0_eval:
  "base0 = \<lparr>name = '''', cpp_force = None, force_name = ''force0'', enabled = True,
            log = True\<rparr>"
  by (simp add: base0_def force_init_def session0_def show_nat.simps)

lemma const1_eval:
  "cpp_force const1 = Some 0 \<and> enabled const1 \<and> log const1 \<and> force_name const1 = ''force0''
   \<and> name const1 = '''' \<and> fx const1 = 1 \<and> fy const1 = 2 \<and> fz const1 = 3"
  by (simp add: const1_def constant_init_def force_init_def session0_def show_nat.simps
      print_status_line_def new_native_def Let_def force.defs constant.defs)

lemma session1_eval:
  "computes session1 ''force0'' = Some 0 \<and> heap session1 0 = \<lparr>ctor = ConstForceCompute 0 1 2 3, calls = []\<rparr>
   \<and> forces session1 = [''force0''] \<and> cur_id session1 = 1 \<and> msgs session1 = [StatusLine]"
  by (simp add: session1_def constant_init_def force_init_def session0_def show_nat.simps
      print_status_line_def new_native_def addCompute_def Let_def force.defs constant.defs)

section \<open>The initialization check\<close>

lemma check_initialization_None:
  "cpp_force self = None \<Longrightarrow> check_initialization self ctx =
     (Inl (RuntimeError ''''),
      msg_error (''Bug in hoomd_script: cpp_force not set, please report'' @ [CHR 0x0A]) ctx)"
  by (simp add: check_initialization_def)

lemma check_initialization_Some:
  "cpp_force self = Some r \<Longrightarrow> check_initialization self ctx = (Inr (), ctx)"
  by (simp add: check_initialization_def)

lemma force_init_initialized:
  "initialized ctx \<Longrightarrow>
     force_init None (print_status_line ctx) =
       (Inr \<lparr>name = '''', cpp_force = None, force_name = ''force'' @ show_nat (cur_id ctx),
              enabled = True, log = True\<rparr>,
        ctx\<lparr>cur_id := cur_id ctx + 1,
            forces := forces ctx @ [''force'' @ show_nat (cur_id ctx)],
            msgs := msgs ctx @ [StatusLine]\<rparr>)"
  by (simp add: force_init_def print_status_line_def Let_def)

text \<open>
  Claim C4. As long as the native compute of a force does not exist (\<open>cpp_force\<close> is
  \<open>None\<close>), each of \<open>enable\<close>, \<open>disable\<close>, \<open>benchmark\<close> and \<open>set_force\<close> raises
  \<open>RuntimeError\<close> at once: the force is left as it was, nothing is registered or removed
  and no native object is touched.
\<close>

theorem uninitialized_control_call_raises:
  fixes self :: "'a force_scheme" and cself :: "constant"
  assumes "cpp_force self = None" and "cpp_force cself = None"
  shows "fst (enable self ctx) = Inl (RuntimeError '''')
       \<and> fst (snd (enable self ctx)) = self
       \<and> fst (disable lg self ctx) = Inl (RuntimeError '''')
       \<and> fst (snd (disable lg self ctx)) = self
       \<and> fst (benchmark timing n self ctx) = Inl (RuntimeError '''')
       \<and> fst (set_force x y z grp cself ctx) = Inl (RuntimeError '''')
       \<and> fst (snd (set_force x y z grp cself ctx)) = cself
       \<and> computes (snd (snd (enable self ctx))) = computes ctx
       \<and> computes (snd (snd (disable lg self ctx))) = computes ctx
       \<and> heap (snd (snd (set_force x y z grp cself ctx))) = heap ctx"
  using assms
  by (simp add: enable_def disable_def benchmark_def set_force_def check_initialization_None
      msg_error_def print_status_line_def)

theorem uninitialized_control_call_raises_witness:
  "cpp_force base0 = None \<and> cpp_force (const1\<lparr>cpp_force := None\<rparr>) = None
 \<and> fst (enable base0 session0) = Inl (RuntimeError '''')
 \<and> fst (disable False base0 session0) = Inl (RuntimeError '''')
 \<and> fst (benchmark timing0 100 base0 session0) = Inl (RuntimeError '''')
 \<and> fst (set_force 0 0 1 None (const1\<lparr>cpp_force := None\<rparr>) session0) = Inl (RuntimeError '''')"
proof -
  have h1: "cpp_force base0 = None"
    by (simp add: base0_eval)
  have h2: "cpp_force (const1\<lparr>cpp_force := None\<rparr>) = None"
    by simp
  from h1 h2 uninitialized_control_call_raises [OF h1 h2, of session0 False timing0 100 0 0 1 None]
  show ?thesis by simp
qed

section \<open>Disabling and enabling\<close>

text \<open>
  Claim C2. For an initialized, enabled force, \<open>disable(log=False)\<close> succeeds, leaves the
  force disabled and removes the compute registered under its name; the \<open>enable()\<close>
  that follows succeeds and registers the very same native object under the same name
  again. The force is then what it was before (with \<open>log\<close> true) and no native object has
  changed, so the parameters of the compute are the same.
\<close>

theorem disable_enable_round_trip:
  fixes self :: "'a force_scheme"
  assumes "cpp_force self = Some r" and "enabled self"
  shows "\<exists>self1 ctx1 self2 ctx2.
           disable False self ctx = (Inr (), self1, ctx1)
         \<and> \<not> enabled self1
         \<and> computes ctx1 (force_name self) = None
         \<and> enable self1 ctx1 = (Inr (), self2, ctx2)
         \<and> self2 = self\<lparr>log := True\<rparr>
         \<and> computes ctx2 = (computes ctx)(force_name self \<mapsto> r)
         \<and> heap ctx2 = heap ctx"
  using assms
  by (simp add: enable_def disable_def check_initialization_Some removeCompute_def
      addCompute_def print_status_line_def Let_def)

theorem disable_enable_round_trip_witness:
  "cpp_force const1 = Some 0 \<and> enabled const1
 \<and> (\<exists>self1 ctx1 self2 ctx2.
        disable False const1 session1 = (Inr (), self1, ctx1)
      \<and> \<not> enabled self1
      \<and> computes ctx1 (force_name const1) = None
      \<and> enable self1 ctx1 = (Inr (), self2, ctx2)
      \<and> self2 = const1\<lparr>log := True\<rparr>
      \<and> computes ctx2 = (computes session1)(force_name const1 \<mapsto> 0)
      \<and> heap ctx2 = heap session1)"
proof -
  have h1: "cpp_force const1 = Some 0" and h2: "enabled const1"
    by (simp_all add: const1_eval)
  show ?thesis
    by (rule conjI [OF h1 conjI [OF h2 disable_enable_round_trip [OF h1 h2]]])
qed

text \<open>
  Claim C3. For an initialized, enabled force, \<open>disable(log=True)\<close> succeeds and leaves
  the force disabled, so that it no longer adds to the net force, with \<open>log\<close> true; the
  registry of computes and the native objects are untouched, so that the compute stays
  registered for logging.
\<close>

theorem disable_keep_logging:
  fixes self :: "'a force_scheme"
  assumes "cpp_force self = Some r" and "enabled self"
  shows "\<exists>self1 ctx1.
           disable True self ctx = (Inr (), self1, ctx1)
         \<and> \<not> enabled self1
         \<and> log self1
         \<and> cpp_force self1 = Some r
         \<and> force_name self1 = force_name self
         \<and> computes ctx1 = computes ctx
         \<and> heap ctx1 = heap ctx"
  using assms
  by (simp add: disable_def check_initialization_Some print_status_line_def Let_def)

theorem disable_keep_logging_witness:
  "cpp_force const1 = Some 0 \<and> enabled const1
 \<and> (\<exists>self1 ctx1.
        disable True const1 session1 = (Inr (), self1, ctx1)
      \<and> \<not> enabled self1
      \<and> log self1
      \<and> cpp_force self1 = Some 0
      \<and> force_name self1 = force_name const1
      \<and> computes ctx1 = computes session1
      \<and> heap ctx1 = heap session1)"
proof -
  have h1: "cpp_force const1 = Some 0" and h2: "enabled const1"
    by (simp_all add: const1_eval)
  show ?thesis
    by (rule conjI [OF h1 conjI [OF h2 disable_keep_logging [OF h1 h2]]])
qed

text \<open>
  Claim C10. \<open>disable\<close> on a disabled force and \<open>enable\<close> on an enabled force change
  neither the force (its \<open>enabled\<close> and \<open>log\<close> flags included), nor the registered
  computes, nor a native object, whatever \<open>log\<close> argument is given; on an initialized
  force the call returns normally and prints its status line and one warning.
\<close>

theorem repeated_toggle_is_ignored:
  fixes self :: "'a force_scheme"
  shows "(\<not> enabled self \<longrightarrow>
            fst (snd (disable lg self ctx)) = self
          \<and> computes (snd (snd (disable lg self ctx))) = computes ctx
          \<and> heap (snd (snd (disable lg self ctx))) = heap ctx
          \<and> (cpp_force self \<noteq> None \<longrightarrow>
                fst (disable lg self ctx) = Inr ()
              \<and> msgs (snd (snd (disable lg self ctx))) = msgs ctx @
                  [StatusLine,
                   Warning ''Ignoring command to disable a force that is already disabled'']))
       \<and> (enabled self \<longrightarrow>
            fst (snd (enable self ctx)) = self
          \<and> computes (snd (snd (enable self ctx))) = computes ctx
          \<and> heap (snd (snd (enable self ctx))) = heap ctx
          \<and> (cpp_force self \<noteq> None \<longrightarrow>
                fst (enable self ctx) = Inr ()
              \<and> msgs (snd (snd (enable self ctx))) = msgs ctx @
                  [StatusLine,
                   Warning ''Ignoring command to enable a force that is already enabled'']))"
  by (cases "cpp_force self")
     (auto simp add: enable_def disable_def check_initialization_def print_status_line_def
        msg_warning_def msg_error_def)

theorem repeated_toggle_is_ignored_witness:
  "\<not> enabled (const1\<lparr>enabled := False\<rparr>) \<and> cpp_force (const1\<lparr>enabled := False\<rparr>) \<noteq> None
 \<and> fst (snd (disable False (const1\<lparr>enabled := False\<rparr>) session1)) = const1\<lparr>enabled := False\<rparr>
 \<and> log (fst (snd (disable False (const1\<lparr>enabled := False\<rparr>) session1)))
 \<and> computes (snd (snd (disable False (const1\<lparr>enabled := False\<rparr>) session1))) ''force0'' = Some 0
 \<and> fst (disable False (const1\<lparr>enabled := False\<rparr>) session1) = Inr ()
 \<and> enabled const1 \<and> cpp_force const1 \<noteq> None
 \<and> fst (snd (enable const1 session1)) = const1
 \<and> computes (snd (snd (enable const1 session1))) = computes session1
 \<and> fst (enable const1 session1) = Inr ()"
proof -
  have h: "cpp_force const1 = Some 0" "enabled const1" "log const1"
    "computes session1 ''force0'' = Some 0"
    by (simp_all add: const1_eval session1_eval)
  from repeated_toggle_is_ignored [of "const1\<lparr>enabled := False\<rparr>" False session1]
    repeated_toggle_is_ignored [of const1 False session1] h
  show ?thesis by simp
qed

section \<open>An enabled force is logged\<close>

lemma enable_keeps_log:
  fixes self :: "'a force_scheme"
  shows "(enabled self \<longrightarrow> log self) \<Longrightarrow>
     enabled (fst (snd (enable self ctx))) \<longrightarrow> log (fst (snd (enable self ctx)))"
  by (cases "cpp_force self")
     (auto simp add: enable_def check_initialization_def Let_def)

lemma disable_keeps_log:
  fixes self :: "'a force_scheme"
  shows "(enabled self \<longrightarrow> log self) \<Longrightarrow>
     enabled (fst (snd (disable lg self ctx))) \<longrightarrow> log (fst (snd (disable lg self ctx)))"
  by (cases "cpp_force self")
     (auto simp add: disable_def check_initialization_def Let_def)

lemma control_call_keeps_log:
  fixes s :: "'a force_scheme \<times> context"
  shows "(enabled (fst s) \<longrightarrow> log (fst s)) \<Longrightarrow>
     enabled (fst (control_call c s)) \<longrightarrow> log (fst (control_call c s))"
proof (cases s)
  case (Pair self ctx)
  assume inv: "enabled (fst s) \<longrightarrow> log (fst s)"
  show ?thesis
  proof (cases c)
    case Enable
    with Pair inv enable_keeps_log [of self ctx] show ?thesis by simp
  next
    case (Disable lg)
    with Pair inv disable_keeps_log [of self lg ctx] show ?thesis by simp
  qed
qed

lemma control_calls_keep_log:
  fixes s :: "'a force_scheme \<times> context"
  shows "(enabled (fst s) \<longrightarrow> log (fst s)) \<Longrightarrow>
     enabled (fst (control_calls cs s)) \<longrightarrow> log (fst (control_calls cs s))"
proof (induction cs arbitrary: s)
  case Nil
  then show ?case by simp
next
  case (Cons c cs)
  from Cons.prems have "enabled (fst (control_call c s)) \<longrightarrow> log (fst (control_call c s))"
    by (rule control_call_keeps_log)
  then show ?case using Cons.IH [of "control_call c s"] by simp
qed

lemma force_init_flags:
  "force_init nm ctx = (Inr f, ctx1) \<Longrightarrow> enabled f \<and> log f \<and> cpp_force f = None"
  by (auto simp add: force_init_def Let_def split: if_splits)

lemma constant_init_flags:
  "constant_init x y z grp ctx = (Inr c, ctx1) \<Longrightarrow> enabled c \<and> log c"
  by (auto simp add: constant_init_def force_init_def Let_def new_native_def force.defs
        constant.defs split: if_splits option.splits)

lemma active_init_flags:
  "active_init native sd fl g ol rd con ctx = (Inr a, ctx1) \<Longrightarrow> enabled a \<and> log a"
  by (auto simp add: active_init_def force_init_def Let_def new_native_def force.defs
        active.defs split: if_splits option.splits sum.splits prod.splits)

text \<open>
  Claim C9. A force as one of the constructors \<open>_force\<close>, \<open>constant\<close> and \<open>active\<close>
  returns it, taken through any sequence of \<open>enable()\<close> and \<open>disable(log)\<close> calls, has
  \<open>log\<close> true whenever it is enabled; and so has, after any such sequence, a force of
  any class derived from \<open>_force\<close> that had \<open>log\<close> true or was disabled before it.
\<close>

theorem enabled_implies_log:
  "(force_init nm ctx = (Inr f, fctx) \<longrightarrow>
      (enabled (fst (control_calls cs (f, fctx))) \<longrightarrow> log (fst (control_calls cs (f, fctx)))))
 \<and> (constant_init x y z grp ctx = (Inr c, cctx) \<longrightarrow>
      (enabled (fst (control_calls cs (c, cctx))) \<longrightarrow> log (fst (control_calls cs (c, cctx)))))
 \<and> (active_init native sd fl g ol rd con ctx = (Inr a, actx) \<longrightarrow>
      (enabled (fst (control_calls cs (a, actx))) \<longrightarrow> log (fst (control_calls cs (a, actx)))))
 \<and> ((enabled self \<longrightarrow> log self) \<longrightarrow>
      (enabled (fst (control_calls cs (self, sctx))) \<longrightarrow>
         log (fst (control_calls cs (self, sctx)))))"
  using control_calls_keep_log [of "(f, fctx)" cs] control_calls_keep_log [of "(c, cctx)" cs]
    control_calls_keep_log [of "(a, actx)" cs] control_calls_keep_log [of "(self, sctx)" cs]
    force_init_flags [of nm ctx f fctx] constant_init_flags [of x y z grp ctx c cctx]
    active_init_flags [of native sd fl g ol rd con ctx a actx]
  by simp

theorem enabled_implies_log_witness:
  "constant_init 1 2 3 None session0 = (Inr const1, session1)
 \<and> enabled (fst (control_calls [Disable False, Enable, Disable True, Enable] (const1, session1)))
 \<and> log (fst (control_calls [Disable False, Enable, Disable True, Enable] (const1, session1)))"
proof -
  have h: "constant_init 1 2 3 None session0 = (Inr const1, session1)"
    by (simp add: const1_def session1_def constant_init_def force_init_def session0_def
        print_status_line_def new_native_def Let_def)
  have e: "enabled (fst (control_calls [Disable False, Enable, Disable True, Enable]
             (const1, session1)))"
    by (simp add: const1_eval enable_def disable_def check_initialization_def Let_def)
  note inv = enabled_implies_log [where ctx = session0 and x = 1 and y = 2 and z = 3
      and grp = None and c = const1 and cctx = session1
      and cs = "[Disable False, Enable, Disable True, Enable]", THEN conjunct2, THEN conjunct1]
  from h e inv show ?thesis by simp
qed

section \<open>Changing a constant force\<close>

text \<open>
  Claim C7. On an initialized constant force, \<open>set_force(fx, fy, fz)\<close> succeeds. The
  native compute of the force receives exactly one more call, \<open>setGroupForce\<close> with the
  native group and the new components when a group is given and \<open>setForce\<close> with the new
  components otherwise, and the attributes \<open>fx\<close>, \<open>fy\<close>, \<open>fz\<close> hold the new values
  afterwards.
\<close>

theorem set_force_updates:
  assumes "cpp_force self = Some r"
  shows "\<exists>self1 ctx1.
           set_force x y z grp self ctx = (Inr (), self1, ctx1)
         \<and> fx self1 = x \<and> fy self1 = y \<and> fz self1 = z
         \<and> calls (heap ctx1 r) = calls (heap ctx r) @
               [case grp of Some g \<Rightarrow> setGroupForce (cpp_group g) x y z
                          | None \<Rightarrow> setForce x y z]
         \<and> ctor (heap ctx1 r) = ctor (heap ctx r)
         \<and> computes ctx1 = computes ctx
         \<and> cpp_force self1 = Some r"
  using assms
  by (cases grp) (simp_all add: set_force_def check_initialization_Some native_call_def)

theorem set_force_updates_witness:
  "cpp_force const1 = Some 0
 \<and> (\<exists>self1 ctx1.
        set_force 4 5 6 None const1 session1 = (Inr (), self1, ctx1)
      \<and> fx self1 = 4 \<and> fy self1 = 5 \<and> fz self1 = 6
      \<and> calls (heap ctx1 0) = [setForce 4 5 6])
 \<and> (\<exists>self1 ctx1.
        set_force 4 5 6 (Some \<lparr>cpp_group = 7\<rparr>) const1 session1 = (Inr (), self1, ctx1)
      \<and> fx self1 = 4 \<and> fy self1 = 5 \<and> fz self1 = 6
      \<and> calls (heap ctx1 0) = [setGroupForce 7 4 5 6])"
proof -
  have h1: "cpp_force const1 = Some 0"
    by (simp add: const1_eval)
  have h: "calls (heap session1 0) = []"
    by (simp add: session1_eval)
  from set_force_updates [OF h1, of 4 5 6 None session1]
    set_force_updates [OF h1, of 4 5 6 "Some \<lparr>cpp_group = 7\<rparr>" session1] h1 h
  show ?thesis by auto
qed

section \<open>The checks of the active force constructor\<close>

lemma bad_element_iff: "bad_element e \<longleftrightarrow> (\<forall>a b c. e \<noteq> PyTuple [a, b, c])"
proof (cases e)
  case (PyTuple vs)
  have "length vs = 3 \<longleftrightarrow> (\<exists>a b c. vs = [a, b, c])"
    by (auto simp add: numeral_3_eq_3 length_Suc_conv)
  with PyTuple show ?thesis by auto
qed simp_all

lemma check_elements_iff:
  "check_elements xs =
     (if \<exists>e\<in>set xs. bad_element e then
        Inl (RuntimeError ''Active force passed in should be a list of 3-tuples (fx, fy, fz)'')
      else Inr ())"
  by (induction xs) simp_all

text \<open>
  Claim C6. A tuple is a value whose type is exactly \<open>tuple\<close>. For a list \<open>f_lst\<close> that
  is not \<open>None\<close>, the input check raises the error about 3-tuples if and only if some
  element is not a tuple of length 3, and passes otherwise. In an initialized session
  the constructor fails with that error whenever there is such an element. Where the
  constraint is accepted and the native constructor accepts the one call made with the
  list, the constructor fails if and only if there is such an element. And with a list of
  3-tuples only, whatever error the constructor fails with in an initialized session is
  the error of the constraint branch or one the native constructor raised.
\<close>

theorem f_lst_input_check:
  "input_check (Some xs) =
     (if \<exists>e\<in>set xs. \<forall>a b c. e \<noteq> PyTuple [a, b, c] then
        Inl (RuntimeError ''Active force passed in should be a list of 3-tuples (fx, fy, fz)'')
      else Inr ())
 \<and> (initialized ctx \<longrightarrow> (\<exists>e\<in>set xs. \<forall>a b c. e \<noteq> PyTuple [a, b, c]) \<longrightarrow>
      fst (active_init native sd (Some xs) g ol rd con ctx) =
        Inl (RuntimeError ''Active force passed in should be a list of 3-tuples (fx, fy, fz)''))
 \<and> (initialized ctx \<longrightarrow> assign_constraints con = Inr (P, rx, ry, rz) \<longrightarrow>
      native (if \<not> isCUDAEnabled ctx
              then ActiveForceCompute (cpp_group g) sd (Some xs) ol rd P rx ry rz
              else ActiveForceComputeGPU (cpp_group g) sd (Some xs) ol rd P rx ry rz) = None \<longrightarrow>
      (isl (fst (active_init native sd (Some xs) g ol rd con ctx)) \<longleftrightarrow>
         (\<exists>e\<in>set xs. \<forall>a b c. e \<noteq> PyTuple [a, b, c])))
 \<and> (initialized ctx \<longrightarrow> \<not> (\<exists>e\<in>set xs. \<forall>a b c. e \<noteq> PyTuple [a, b, c]) \<longrightarrow>
      (\<forall>e. fst (active_init native sd (Some xs) g ol rd con ctx) = Inl e \<longrightarrow>
         assign_constraints con = Inl e \<or> (\<exists>c. native c = Some e)))"
proof -
  let ?bad = "\<exists>e\<in>set xs. \<forall>a b c. e \<noteq> PyTuple [a, b, c]"
  let ?E = "RuntimeError ''Active force passed in should be a list of 3-tuples (fx, fy, fz)''"
  let ?call = "if \<not> isCUDAEnabled ctx
              then ActiveForceCompute (cpp_group g) sd (Some xs) ol rd P rx ry rz
              else ActiveForceComputeGPU (cpp_group g) sd (Some xs) ol rd P rx ry rz"
  let ?res = "fst (active_init native sd (Some xs) g ol rd con ctx)"
  have chk: "input_check (Some xs) = (if ?bad then Inl ?E else Inr ())"
    by (simp add: input_check_def check_elements_iff bad_element_iff)
  have err: "?res = Inl ?E" if "initialized ctx" and "?bad"
    using that by (simp add: active_init_def force_init_initialized chk)
  have ok: "\<not> isl ?res"
    if "initialized ctx" and "assign_constraints con = Inr (P, rx, ry, rz)"
      and "native ?call = None" and "\<not> ?bad"
    using that
    by (cases "isCUDAEnabled ctx")
       (simp_all add: active_init_def force_init_initialized chk new_native_def Let_def)
  have iff: "isl ?res \<longleftrightarrow> ?bad"
    if "initialized ctx" and "assign_constraints con = Inr (P, rx, ry, rz)"
      and "native ?call = None"
  proof (cases "?bad")
    case True
    with err [OF that(1)] show ?thesis by simp
  next
    case False
    with ok [OF that] show ?thesis by simp
  qed
  have pass: "input_check (Some xs) = Inr ()" if "\<not> ?bad"
    using that chk by simp
  have only: "assign_constraints con = Inl e \<or> (\<exists>c. native c = Some e)"
    if init: "initialized ctx" and good: "\<not> ?bad" and res: "?res = Inl e" for e
  proof (cases "assign_constraints con")
    case (Inl e')
    with init res show ?thesis
      by (simp add: active_init_def force_init_initialized pass [OF good])
  next
    case (Inr q)
    obtain P' rx' ry' rz' where q: "q = (P', rx', ry', rz')"
      by (cases q) auto
    let ?c = "if \<not> isCUDAEnabled ctx
              then ActiveForceCompute (cpp_group g) sd (Some xs) ol rd P' rx' ry' rz'
              else ActiveForceComputeGPU (cpp_group g) sd (Some xs) ol rd P' rx' ry' rz'"
    show ?thesis
    proof (cases "native ?c")
      case None
      with init res Inr q have False
        by (cases "isCUDAEnabled ctx")
           (simp_all add: active_init_def force_init_initialized pass [OF good] new_native_def Let_def)
      then show ?thesis ..
    next
      case (Some e')
      with init res Inr q have "e' = e"
        by (cases "isCUDAEnabled ctx")
           (simp_all add: active_init_def force_init_initialized pass [OF good])
      with Some show ?thesis by blast
    qed
  qed
  from chk err iff only show ?thesis by blast
qed

theorem f_lst_input_check_witness:
  "initialized session0
 \<and> (\<exists>e\<in>set [PyTuple [PyInt 1, PyInt 0, PyInt 0], PyTuple [PyInt 1, PyInt 2]].
       \<forall>a b c. e \<noteq> PyTuple [a, b, c])
 \<and> input_check (Some [PyTuple [PyInt 1, PyInt 0, PyInt 0], PyTuple [PyInt 1, PyInt 2]]) =
     Inl (RuntimeError ''Active force passed in should be a list of 3-tuples (fx, fy, fz)'')
 \<and> fst (active_init (native_engine one_particle) 13
          (Some [PyTuple [PyInt 1, PyInt 0, PyInt 0], PyTuple [PyInt 1, PyInt 2]])
          \<lparr>cpp_group = 0\<rparr> True 0 None session0) =
     Inl (RuntimeError ''Active force passed in should be a list of 3-tuples (fx, fy, fz)'')
 \<and> \<not> (\<exists>e\<in>set [PyTuple [PyInt 1, PyInt 0, PyInt 0]]. \<forall>a b c. e \<noteq> PyTuple [a, b, c])
 \<and> assign_constraints (Some ellipsoid0) = Inr (make_scalar3 0 0 0, 3, 4, 5)
 \<and> native_engine one_particle
       (ActiveForceCompute 0 13 (Some [PyTuple [PyInt 1, PyInt 0, PyInt 0]]) True 0
          (make_scalar3 0 0 0) 3 4 5) = None
 \<and> input_check (Some [PyTuple [PyInt 1, PyInt 0, PyInt 0]]) = Inr ()
 \<and> \<not> isl (fst (active_init (native_engine one_particle) 13
          (Some [PyTuple [PyInt 1, PyInt 0, PyInt 0]])
          \<lparr>cpp_group = 0\<rparr> True 0 (Some ellipsoid0) session0))"
proof -
  have i: "initialized session0" and g: "\<not> isCUDAEnabled session0"
    by (simp_all add: session0_def)
  have c: "assign_constraints (Some ellipsoid0) = Inr (make_scalar3 0 0 0, 3, 4, 5)"
    by (simp add: assign_constraints_def ellipsoid0_def)
  have n: "native_engine one_particle
       (ActiveForceCompute 0 13 (Some [PyTuple [PyInt 1, PyInt 0, PyInt 0]]) True 0
          (make_scalar3 0 0 0) 3 4 5) = None"
    by (simp add: one_particle_def)
  have bad: "\<exists>e\<in>set [PyTuple [PyInt 1, PyInt 0, PyInt 0], PyTuple [PyInt 1, PyInt 2]].
       \<forall>a b c. e \<noteq> PyTuple [a, b, c]"
    by simp
  have good: "\<not> (\<exists>e\<in>set [PyTuple [PyInt 1, PyInt 0, PyInt 0]].
       \<forall>a b c. e \<noteq> PyTuple [a, b, c])"
    by simp
  note t1 = f_lst_input_check
    [where xs = "[PyTuple [PyInt 1, PyInt 0, PyInt 0], PyTuple [PyInt 1, PyInt 2]]"
       and ctx = session0 and native = "native_engine one_particle" and sd = 13
       and g = "\<lparr>cpp_group = 0\<rparr>" and ol = True and rd = 0 and con = None]
  note t2 = f_lst_input_check
    [where xs = "[PyTuple [PyInt 1, PyInt 0, PyInt 0]]"
       and ctx = session0 and native = "native_engine one_particle" and sd = 13
       and g = "\<lparr>cpp_group = 0\<rparr>" and ol = True and rd = 0 and con = "Some ellipsoid0"
       and P = "make_scalar3 0 0 0" and rx = 3 and ry = 4 and rz = 5]
  have w1: "input_check (Some [PyTuple [PyInt 1, PyInt 0, PyInt 0], PyTuple [PyInt 1, PyInt 2]]) =
     Inl (RuntimeError ''Active force passed in should be a list of 3-tuples (fx, fy, fz)'')"
    using t1 [THEN conjunct1] bad by simp
  have w2: "fst (active_init (native_engine one_particle) 13
          (Some [PyTuple [PyInt 1, PyInt 0, PyInt 0], PyTuple [PyInt 1, PyInt 2]])
          \<lparr>cpp_group = 0\<rparr> True 0 None session0) =
     Inl (RuntimeError ''Active force passed in should be a list of 3-tuples (fx, fy, fz)'')"
    using t1 [THEN conjunct2, THEN conjunct1] i bad by blast
  have w3: "input_check (Some [PyTuple [PyInt 1, PyInt 0, PyInt 0]]) = Inr ()"
    using t2 [THEN conjunct1] good by simp
  have w4: "\<not> isl (fst (active_init (native_engine one_particle) 13
          (Some [PyTuple [PyInt 1, PyInt 0, PyInt 0]])
          \<lparr>cpp_group = 0\<rparr> True 0 (Some ellipsoid0) session0))"
    using t2 [THEN conjunct2, THEN conjunct2, THEN conjunct1] i g c n good by simp
  from i bad w1 w2 good c n w3 w4 show ?thesis by blast
qed

text \<open>
  Claim C5. With a constraint object of a class other than \<open>constraint_ellipsoid\<close> the
  constructor fails, and in an initialized session with a well-formed \<open>f_lst\<close> it fails
  with the error about the constraint. Without a constraint, in an initialized session
  with a well-formed \<open>f_lst\<close> whose engine the native constructor accepts, construction
  succeeds, and the engine registered under the name of the force has been constructed
  with the centre \<open>(0, 0, 0)\<close> and the three semi-axes \<open>0\<close>.
\<close>

theorem constraint_check:
  "(class_name c \<noteq> ''constraint_ellipsoid'' \<longrightarrow>
      isl (fst (active_init native sd fl g ol rd (Some c) ctx))
    \<and> (initialized ctx \<longrightarrow> input_check fl = Inr () \<longrightarrow>
          fst (active_init native sd fl g ol rd (Some c) ctx) =
            Inl (RuntimeError
              ''Active force constraint is not accepted (currently only accepts ellipsoids)'')))
 \<and> (initialized ctx \<longrightarrow> input_check fl = Inr () \<longrightarrow>
      native (if \<not> isCUDAEnabled ctx
              then ActiveForceCompute (cpp_group g) sd fl ol rd (make_scalar3 0 0 0) 0 0 0
              else ActiveForceComputeGPU (cpp_group g) sd fl ol rd (make_scalar3 0 0 0) 0 0 0)
        = None \<longrightarrow>
      (\<exists>self ctx1 r.
          active_init native sd fl g ol rd None ctx = (Inr self, ctx1)
        \<and> cpp_force self = Some r
        \<and> computes ctx1 (force_name self) = Some r
        \<and> ctor (heap ctx1 r) =
            (if \<not> isCUDAEnabled ctx
             then ActiveForceCompute (cpp_group g) sd fl ol rd (make_scalar3 0 0 0) 0 0 0
             else ActiveForceComputeGPU (cpp_group g) sd fl ol rd (make_scalar3 0 0 0) 0 0 0)))"
proof (intro conjI impI)
  assume other: "class_name c \<noteq> ''constraint_ellipsoid''"
  then show "isl (fst (active_init native sd fl g ol rd (Some c) ctx))"
    by (cases "initialized ctx"; cases "input_check fl")
       (simp_all add: active_init_def force_init_initialized assign_constraints_def
          force_init_def print_status_line_def)
  assume "initialized ctx" and "input_check fl = Inr ()"
  with other show "fst (active_init native sd fl g ol rd (Some c) ctx) =
      Inl (RuntimeError
        ''Active force constraint is not accepted (currently only accepts ellipsoids)'')"
    by (simp add: active_init_def force_init_initialized assign_constraints_def)
next
  assume "initialized ctx" and "input_check fl = Inr ()"
    and "native (if \<not> isCUDAEnabled ctx
              then ActiveForceCompute (cpp_group g) sd fl ol rd (make_scalar3 0 0 0) 0 0 0
              else ActiveForceComputeGPU (cpp_group g) sd fl ol rd (make_scalar3 0 0 0) 0 0 0)
        = None"
  then show "\<exists>self ctx1 r.
          active_init native sd fl g ol rd None ctx = (Inr self, ctx1)
        \<and> cpp_force self = Some r
        \<and> computes ctx1 (force_name self) = Some r
        \<and> ctor (heap ctx1 r) =
            (if \<not> isCUDAEnabled ctx
             then ActiveForceCompute (cpp_group g) sd fl ol rd (make_scalar3 0 0 0) 0 0 0
             else ActiveForceComputeGPU (cpp_group g) sd fl ol rd (make_scalar3 0 0 0) 0 0 0)"
    by (cases "isCUDAEnabled ctx")
       (simp_all add: active_init_def force_init_initialized assign_constraints_def
          new_native_def addCompute_def Let_def force.defs active.defs)
qed

theorem constraint_check_witness:
  "class_name sphere0 \<noteq> ''constraint_ellipsoid'' \<and> initialized session0
 \<and> input_check (Some [PyTuple [PyInt 1, PyInt 2, PyInt 3]]) = Inr ()
 \<and> accept_all (ActiveForceCompute 0 7 (Some [PyTuple [PyInt 1, PyInt 2, PyInt 3]]) False 100
       (make_scalar3 0 0 0) 0 0 0) = None
 \<and> fst (active_init accept_all 7 (Some [PyTuple [PyInt 1, PyInt 2, PyInt 3]])
          \<lparr>cpp_group = 0\<rparr> False 100 (Some sphere0) session0) =
     Inl (RuntimeError
       ''Active force constraint is not accepted (currently only accepts ellipsoids)'')
 \<and> (\<exists>self ctx1 r.
        active_init accept_all 7 (Some [PyTuple [PyInt 1, PyInt 2, PyInt 3]])
          \<lparr>cpp_group = 0\<rparr> False 100 None session0 = (Inr self, ctx1)
      \<and> cpp_force self = Some r
      \<and> computes ctx1 (force_name self) = Some r
      \<and> ctor (heap ctx1 r) =
          ActiveForceCompute 0 7 (Some [PyTuple [PyInt 1, PyInt 2, PyInt 3]]) False 100
            (make_scalar3 0 0 0) 0 0 0)"
proof -
  have c: "class_name sphere0 \<noteq> ''constraint_ellipsoid''"
    by (simp add: sphere0_def)
  have i: "initialized session0" and g: "\<not> isCUDAEnabled session0"
    by (simp_all add: session0_def)
  have f: "input_check (Some [PyTuple [PyInt 1, PyInt 2, PyInt 3]]) = Inr ()"
    by (simp add: input_check_def)
  have a: "\<And>c. accept_all c = None"
    by (simp add: accept_all_def)
  from c i g f a
    constraint_check [of sphere0 accept_all 7 "Some [PyTuple [PyInt 1, PyInt 2, PyInt 3]]"
      "\<lparr>cpp_group = 0\<rparr>" False 100 session0]
  show ?thesis by simp
qed

section \<open>The rotational diffusion constant\<close>

text \<open>
  Claim C1. With the native engine constructor as the spec describes it, constructing an
  active force with a negative \<open>rotation_diff\<close> fails, whatever the other arguments and
  the session are. The constructor returns the error to its caller; it has registered no
  compute and made no native object by then. In an initialized session with a
  well-formed \<open>f_lst\<close> and an accepted constraint, where the Python constructor itself
  raises nothing, the error is the configuration error of the native constructor.
\<close>

theorem negative_rotation_diff_rejected:
  assumes "rd < 0"
  shows "isl (fst (active_init (native_engine members) sd fl g ol rd con ctx))
       \<and> computes (snd (active_init (native_engine members) sd fl g ol rd con ctx)) =
           computes ctx
       \<and> heap (snd (active_init (native_engine members) sd fl g ol rd con ctx)) = heap ctx
       \<and> next_ref (snd (active_init (native_engine members) sd fl g ol rd con ctx)) =
           next_ref ctx
       \<and> (initialized ctx \<longrightarrow> input_check fl = Inr () \<longrightarrow>
            assign_constraints con = Inr (P, rx, ry, rz) \<longrightarrow>
            fst (active_init (native_engine members) sd fl g ol rd con ctx) =
              Inl InvalidConfiguration)"
proof (cases "initialized ctx")
  case False
  then show ?thesis
    by (simp add: active_init_def force_init_def print_status_line_def msg_error_def)
next
  case True
  show ?thesis
  proof (cases "input_check fl")
    case (Inl e)
    with True show ?thesis
      by (simp add: active_init_def force_init_initialized)
  next
    case chk: (Inr u)
    show ?thesis
    proof (cases "assign_constraints con")
      case (Inl e)
      with True chk show ?thesis
        by (simp add: active_init_def force_init_initialized)
    next
      case (Inr q)
      obtain P' rx' ry' rz' where "q = (P', rx', ry', rz')"
        by (cases q) auto
      with True chk Inr assms show ?thesis
        by (simp add: active_init_def force_init_initialized)
    qed
  qed
qed

theorem negative_rotation_diff_rejected_witness:
  "(- 1 :: real) < 0 \<and> initialized session0
 \<and> input_check (Some [PyTuple [PyInt 3, PyInt 0, PyInt 0]]) = Inr ()
 \<and> assign_constraints None = Inr (make_scalar3 0 0 0, 0, 0, 0)
 \<and> fst (active_init (native_engine one_particle) 13
          (Some [PyTuple [PyInt 3, PyInt 0, PyInt 0]]) \<lparr>cpp_group = 0\<rparr> True (- 1) None
          session0) = Inl InvalidConfiguration
 \<and> computes (snd (active_init (native_engine one_particle) 13
          (Some [PyTuple [PyInt 3, PyInt 0, PyInt 0]]) \<lparr>cpp_group = 0\<rparr> True (- 1) None
          session0)) = computes session0"
proof -
  have r: "(- 1 :: real) < 0"
    by simp
  have i: "initialized session0"
    by (simp add: session0_def)
  have f: "input_check (Some [PyTuple [PyInt 3, PyInt 0, PyInt 0]]) = Inr ()"
    by (simp add: input_check_def)
  have c: "assign_constraints None = Inr (make_scalar3 0 0 0, 0, 0, 0)"
    by (simp add: assign_constraints_def)
  note t = negative_rotation_diff_rejected
    [OF r, where members = one_particle and sd = 13
       and fl = "Some [PyTuple [PyInt 3, PyInt 0, PyInt 0]]" and g = "\<lparr>cpp_group = 0\<rparr>"
       and ol = True and con = None and ctx = session0
       and P = "make_scalar3 0 0 0" and rx = 0 and ry = 0 and rz = 0]
  from r i f c t show ?thesis by simp
qed

end
